theory Spec2Isabelle
  imports Complex_Main "HOL-Library.AList"
begin

section \<open>Data model of \<open>hummingbird/ml/convert.py\<close>\<close>

text \<open>
  The exceptions the module can raise. \<open>MissingBackend\<close> is the module's own exception
  class; every \<open>raise RuntimeError(...)\<close> of the source carries one of six messages, kept
  apart by \<open>rt_reason\<close>. The remaining constructors are the built-in exceptions raised by
  failing assertions, indexing, attribute access and \<open>len\<close>.
\<close>

datatype rt_reason =
    JitRequiresTestInput
  | OnnxBackendNoInput
  | OnnxModelNoFeatures
  | XgbCannotInfer
  | XgbNoTestInput
  | TensorTypeNotSupported

datatype error =
    AssertionError
  | MissingBackend
  | RuntimeError rt_reason
  | ValueError
  | TypeError
  | AttributeError
  | IndexError
  | KeyError

datatype dtype = float32 | float64 | int32 | int64 | other_dtype string

text \<open>A numpy array: its shape, its element type and its elements in row-major order.\<close>

record ndarray =
  shape :: "nat list"
  dtype :: dtype
  elems :: "real list"

text \<open>
  A pandas frame: the number of rows of its index and its columns in declaration order.
  Column names need not be distinct.
\<close>

datatype column = Column (cname: string) (cdtype: dtype) (cvalues: "real list")

datatype frame = DataFrame (nrows: nat) (columns: "column list")

text \<open>
  A Spark frame: the schema (field name and the class of the field's data type) and the
  rows. The classes are the ones \<open>convert\<close> compares \<open>type(field.dataType)\<close> with; a cell
  is the run-time value found in a row.
\<close>

datatype spark_type =
    DenseVector | VectorUDT | SparseVector | ArrayType
  | IntegerType | FloatType | DoubleType | LongType
  | OtherType string

datatype cell =
    DenseVec "real list"
  | SparseVec nat "(nat \<times> real) list"
  | ArrayVal "real list"
  | NumVal real
  | NullVal

datatype sframe = SparkDataFrame (sfields: "(string \<times> spark_type) list") (srows: "cell list list")

text \<open>
  The values a caller can pass as \<open>test_input\<close>. \<open>PyObject\<close> is any other object: the
  name of its type, its \<open>len\<close> when it has one and its \<open>shape\<close> attribute when it has one.
\<close>

datatype sample =
    PyNone
  | PyList "sample list"
  | PyTuple "sample list"
  | NdArray ndarray
  | PandasFrame frame
  | SparkFrame sframe
  | PyObject string "nat option" "nat list option"

text \<open>Declared input types (\<open>initial_types\<close>): a dimension may be \<open>None\<close>, and so may the shape.\<close>

datatype tensor_class =
    FloatTensorType | DoubleTensorType | Int32TensorType | Int64TensorType
  | OtherTensorType string

datatype tensor_type = TensorType (tclass: tensor_class) (tshape: "int option list option")

type_synonym initial_types = "(string \<times> tensor_type) list"

text \<open>
  The input model, as far as \<open>convert\<close> looks at it: its run-time type, the attribute
  \<open>_features_count\<close> when \<open>dir(model)\<close> lists it, whether it is an instance of the Spark-ML
  classes, and \<open>model.graph.initializer\<close> (name and content of each initializer).
\<close>

datatype pytype = PyType (tmodule: string) (tname: string)

record pymodel =
  mtype :: pytype
  features_count :: "int option"
  is_spark_instance :: bool
  graph_initializer :: "(string \<times> nat) list option"

text \<open>
  \<open>extra_config\<close>: a dictionary over the keys of \<open>constants\<close> that this module reads or
  writes. A field is \<open>None\<close> when the key is not in the dictionary. \<open>N_THREADS\<close> and
  \<open>ONNX_INITIAL_TYPES\<close> can be present with the value \<open>None\<close>; \<open>TEST_INPUT\<close> can be
  present with the value \<open>PyNone\<close>.
\<close>

record config =
  TEST_INPUT :: "sample option"
  N_FEATURES :: "int option"
  N_INPUTS :: "nat option"
  INPUT_NAMES :: "string list option"
  CONTAINER :: "bool option"
  N_THREADS :: "nat option option"
  ONNX_INITIAL_TYPES :: "initial_types option option"
  ONNX_INITIALIZERS :: "(string \<times> nat) list option"

text \<open>
  What the module imports from elsewhere and only consults: the installation probes of
  \<open>_utils\<close>, \<open>psutil.cpu_count(logical=False)\<close>, the tables of \<open>supported\<close> (the backend
  registry answers \<open>None\<close> for a name it does not hold, which is what
  \<open>_supported_backend_check\<close> tests for), and the numpy operations whose results depend
  on floating point or on the random generator.
\<close>

record env =
  torch_installed :: bool
  lightgbm_installed :: bool
  xgboost_installed :: bool
  pandas_installed :: bool
  sparkml_installed :: bool
  cpu_count :: "nat option"
  backends :: "string \<Rightarrow> string option"
  xgb_operator_list :: "pytype list"
  lgbm_operator_list :: "pytype list"
  np_array :: "sample list \<Rightarrow> error + ndarray"
  np_random_rand :: "nat \<Rightarrow> nat \<Rightarrow> real list"
  np_cast :: "dtype \<Rightarrow> real \<Rightarrow> real"
  np_common_dtype :: "dtype list \<Rightarrow> dtype"

text \<open>
  The external parsers of \<open>_parse\<close> and the compiler of \<open>_topology\<close>. Those that receive
  \<open>extra_config\<close> may change it, so they return it.
\<close>

record ('t, 'r) ext =
  parse_sklearn_api_model :: "pymodel \<Rightarrow> config \<Rightarrow> (error + 't) \<times> config"
  parse_onnx_api_model :: "pymodel \<Rightarrow> error + 't"
  parse_sparkml_api_model :: "pymodel \<Rightarrow> config \<Rightarrow> (error + 't) \<times> config"
  topology_converter :: "'t \<Rightarrow> string \<Rightarrow> string \<Rightarrow> config \<Rightarrow> (error + 'r) \<times> config"

section \<open>Python built-ins on these values\<close>

text \<open>\<open>torch.jit.__name__\<close> and \<open>onnx.__name__\<close>.\<close>

definition torch_jit_name :: string where
  "torch_jit_name = ''torch.jit''"

definition onnx_name :: string where
  "onnx_name = ''onnx''"

text \<open>
  \<open>str.lower\<close> on code points below 256: the ASCII capitals and the Latin-1 capitals
  (all of U+00C0 to U+00DE but the multiplication sign) move up by 32.
\<close>

definition lower_char :: "char \<Rightarrow> char" where
  "lower_char ch =
     (let n = (of_char ch :: nat)
      in if (65 \<le> n \<and> n \<le> 90) \<or> (192 \<le> n \<and> n \<le> 222 \<and> n \<noteq> 215)
         then char_of (n + 32) else ch)"

definition lower :: "string \<Rightarrow> string" where
  "lower s = map lower_char s"

text \<open>\<open>len(x)\<close>, or \<open>None\<close> where Python raises TypeError.\<close>

fun py_len :: "sample \<Rightarrow> nat option" where
  "py_len PyNone = None"
| "py_len (PyList xs) = Some (length xs)"
| "py_len (PyTuple xs) = Some (length xs)"
| "py_len (NdArray a) = (case shape a of [] \<Rightarrow> None | n # _ \<Rightarrow> Some n)"
| "py_len (PandasFrame f) = Some (nrows f)"
| "py_len (SparkFrame s) = None"
| "py_len (PyObject t l s) = l"

text \<open>\<open>x.shape\<close>, or \<open>None\<close> where Python raises AttributeError.\<close>

fun py_shape :: "sample \<Rightarrow> nat list option" where
  "py_shape (NdArray a) = Some (shape a)"
| "py_shape (PandasFrame f) = Some [nrows f, length (columns f)]"
| "py_shape (PyObject t l s) = s"
| "py_shape _ = None"

text \<open>\<open>type(x) == np.ndarray\<close>, and the shape of an array.\<close>

fun is_ndarray :: "sample \<Rightarrow> bool" where
  "is_ndarray (NdArray a) = True"
| "is_ndarray _ = False"

fun shape_of :: "sample \<Rightarrow> nat list" where
  "shape_of (NdArray a) = shape a"
| "shape_of _ = []"

definition is_spark_dataframe :: "env \<Rightarrow> sample \<Rightarrow> bool" where
  "is_spark_dataframe e x =
     (if sparkml_installed e then (case x of SparkFrame s \<Rightarrow> True | _ \<Rightarrow> False) else False)"

definition is_pandas_dataframe :: "env \<Rightarrow> sample \<Rightarrow> bool" where
  "is_pandas_dataframe e x =
     (if pandas_installed e then (case x of PandasFrame f \<Rightarrow> True | _ \<Rightarrow> False) else False)"

text \<open>\<open>type(model)\<close>, with \<open>NoneType\<close> for \<open>None\<close>.\<close>

definition type_of :: "pymodel option \<Rightarrow> pytype" where
  "type_of model =
     (case model of None \<Rightarrow> PyType ''builtins'' ''NoneType'' | Some m \<Rightarrow> mtype m)"

text \<open>\<open>model._features_count\<close> when \<open>"_features_count" in dir(model)\<close>.\<close>

definition features_count_attr :: "pymodel option \<Rightarrow> int option" where
  "features_count_attr model = (case model of None \<Rightarrow> None | Some m \<Rightarrow> features_count m)"

text \<open>\<open>np.zeros((count, width), np_dtype)\<close>.\<close>

definition np_zeros :: "nat \<Rightarrow> nat \<Rightarrow> dtype \<Rightarrow> ndarray" where
  "np_zeros count width dt =
     \<lparr>shape = [count, width], dtype = dt, elems = replicate (count * width) 0\<rparr>"

text \<open>
  \<open>df[name]\<close> followed by \<open>.to_numpy()\<close>: one column of that name gives a one-dimensional
  array, several give the two-dimensional array of all of them.
\<close>

definition frame_getitem :: "frame \<Rightarrow> string \<Rightarrow> column list" where
  "frame_getitem f name = filter (\<lambda>c. cname c = name) (columns f)"

definition to_numpy :: "env \<Rightarrow> nat \<Rightarrow> column list \<Rightarrow> ndarray" where
  "to_numpy e rows cols =
     (case cols of
        [c] \<Rightarrow> \<lparr>shape = [rows], dtype = cdtype c, elems = cvalues c\<rparr>
      | _ \<Rightarrow> \<lparr>shape = [rows, length cols], dtype = np_common_dtype e (map cdtype cols),
              elems = concat (transpose (map cvalues cols))\<rparr>)"

text \<open>\<open>a.reshape(-1, 1)\<close>.\<close>

definition reshape_col :: "ndarray \<Rightarrow> ndarray" where
  "reshape_col a = a\<lparr>shape := [prod_list (shape a), 1]\<rparr>"

text \<open>The dictionary comprehension \<open>{in_.name: in_ for in_ in xs}\<close>.\<close>

definition dict_of :: "(string \<times> nat) list \<Rightarrow> (string \<times> nat) list" where
  "dict_of xs = foldl (\<lambda>d (k, v). AList.update k v d) [] xs"

section \<open>The functions of the module\<close>

definition is_onnx_model :: "pymodel option \<Rightarrow> bool" where
  "is_onnx_model model = (tname (type_of model) = ''ModelProto'')"

definition is_sparkml_model :: "env \<Rightarrow> pymodel option \<Rightarrow> bool" where
  "is_sparkml_model e model =
     (if sparkml_installed e
      then (case model of None \<Rightarrow> False | Some m \<Rightarrow> is_spark_instance m)
      else False)"

text \<open>\<open>_supported_backend_check\<close>; on success the backend is known not to be \<open>None\<close>.\<close>

definition supported_backend_check :: "string option \<Rightarrow> error + string" where
  "supported_backend_check backend =
     (case backend of None \<Rightarrow> Inl MissingBackend | Some b \<Rightarrow> Inr b)"

text \<open>\<open>_supported_backend_check_config\<close>.\<close>

definition supported_backend_check_config ::
  "env \<Rightarrow> pymodel option \<Rightarrow> string \<Rightarrow> config \<Rightarrow> error + unit" where
  "supported_backend_check_config e model backend extra_config =
     (if \<not> torch_installed e then Inl AssertionError
      else if backend = torch_jit_name \<and> TEST_INPUT extra_config = None
        then Inl (RuntimeError JitRequiresTestInput)
      else if backend = onnx_name \<and> ONNX_INITIAL_TYPES extra_config = None
                \<and> TEST_INPUT extra_config = None
        then Inl (RuntimeError OnnxBackendNoInput)
      else if is_onnx_model model \<and> ONNX_INITIAL_TYPES extra_config = None
                \<and> TEST_INPUT extra_config = None
        then Inl (RuntimeError OnnxModelNoFeatures)
      else Inr ())"

text \<open>\<open>_convert_sklearn\<close>; \<open>deepcopy(model)\<close> is the identity on a value.\<close>

definition convert_sklearn ::
  "env \<Rightarrow> ('t, 'r) ext \<Rightarrow> pymodel option \<Rightarrow> string \<Rightarrow> sample \<Rightarrow> string \<Rightarrow> config
     \<Rightarrow> (error + 'r) \<times> config" where
  "convert_sklearn e x model backend test_input device extra_config =
     (case model of
        None \<Rightarrow> (Inl AssertionError, extra_config)
      | Some m \<Rightarrow>
          if \<not> torch_installed e then (Inl AssertionError, extra_config)
          else (case parse_sklearn_api_model x m extra_config of
                  (Inl err, c) \<Rightarrow> (Inl err, c)
                | (Inr topology, c) \<Rightarrow> topology_converter x topology backend device c))"

text \<open>\<open>_convert_lightgbm\<close>.\<close>

definition convert_lightgbm ::
  "env \<Rightarrow> ('t, 'r) ext \<Rightarrow> pymodel option \<Rightarrow> string \<Rightarrow> sample \<Rightarrow> string \<Rightarrow> config
     \<Rightarrow> (error + 'r) \<times> config" where
  "convert_lightgbm e x model backend test_input device extra_config =
     (if \<not> lightgbm_installed e then (Inl AssertionError, extra_config)
      else convert_sklearn e x model backend test_input device extra_config)"

text \<open>\<open>_convert_xgboost\<close>.\<close>

definition convert_xgboost ::
  "env \<Rightarrow> ('t, 'r) ext \<Rightarrow> pymodel option \<Rightarrow> string \<Rightarrow> sample \<Rightarrow> string \<Rightarrow> config
     \<Rightarrow> (error + 'r) \<times> config" where
  "convert_xgboost e x model backend test_input device extra_config =
     (if \<not> xgboost_installed e then (Inl AssertionError, extra_config)
      else case features_count_attr model of
        Some n \<Rightarrow>
          convert_sklearn e x model backend test_input device (extra_config\<lparr>N_FEATURES := Some n\<rparr>)
      | None \<Rightarrow>
          if test_input \<noteq> PyNone then
            if is_ndarray test_input \<and> length (shape_of test_input) = 2
            then convert_sklearn e x model backend test_input device
                   (extra_config\<lparr>N_FEATURES := Some (int (shape_of test_input ! 1))\<rparr>)
            else (Inl (RuntimeError XgbCannotInfer), extra_config)
          else (Inl (RuntimeError XgbNoTestInput), extra_config))"

text \<open>
  \<open>_convert_onnxml\<close>, in the blocks its comments name. First the generation of a test
  input "if necessary" (lines 164 to 188): only for the \<open>onnx\<close> backend, from the first
  declared input type. \<open>np.random.rand\<close> wants two integers that are not negative.
\<close>

definition tensor_dtype :: "tensor_class \<Rightarrow> dtype option" where
  "tensor_dtype tc =
     (if tc = FloatTensorType then Some float32
      else if tc = DoubleTensorType then Some float64
      else if tc = Int32TensorType then Some int32
      else if tc = Int64TensorType then Some int64
      else None)"

definition generate_test_input ::
  "env \<Rightarrow> string \<Rightarrow> sample \<Rightarrow> initial_types option \<Rightarrow> config \<Rightarrow> (error + sample) \<times> config" where
  "generate_test_input e backend test_input initial_types extra_config =
     (if test_input = PyNone then
        if backend = onnx_name then
          (case initial_types of
             None \<Rightarrow> (Inl AssertionError, extra_config)
           | Some [] \<Rightarrow> (Inl IndexError, extra_config)
           | Some ((nm, tt) # rest) \<Rightarrow>
               (case tshape tt of
                  None \<Rightarrow> (Inl AssertionError, extra_config)
                | Some shp \<Rightarrow>
                    if length shp \<noteq> 2 then (Inl AssertionError, extra_config)
                    else (case (shp ! 0, shp ! 1) of
                            (Some d0, Some d1) \<Rightarrow>
                              if d0 < 0 \<or> d1 < 0 then (Inl ValueError, extra_config)
                              else (case tensor_dtype (tclass tt) of
                                      None \<Rightarrow> (Inl (RuntimeError TensorTypeNotSupported), extra_config)
                                    | Some dt \<Rightarrow>
                                        let a = \<lparr>shape = [nat d0, nat d1], dtype = dt,
                                                 elems = map (np_cast e dt)
                                                           (np_random_rand e (nat d0) (nat d1))\<rparr>
                                        in (Inr (NdArray a),
                                            extra_config\<lparr>TEST_INPUT := Some (NdArray a)\<rparr>))
                          | _ \<Rightarrow> (Inl TypeError, extra_config))))
        else (Inr test_input, extra_config)
      else (Inr test_input, extra_config))"

text \<open>"Set the number of expected input features" (lines 191 and 192).\<close>

definition set_n_features :: "sample \<Rightarrow> config \<Rightarrow> (error + unit) \<times> config" where
  "set_n_features test_input extra_config =
     (if N_FEATURES extra_config = None then
        (case py_shape test_input of
           None \<Rightarrow> (Inl AttributeError, extra_config)
         | Some shp \<Rightarrow>
             if 1 < length shp
             then (Inr (), extra_config\<lparr>N_FEATURES := Some (int (shp ! 1))\<rparr>)
             else (Inl IndexError, extra_config))
      else (Inr (), extra_config))"

definition convert_onnxml ::
  "env \<Rightarrow> ('t, 'r) ext \<Rightarrow> pymodel option \<Rightarrow> string \<Rightarrow> sample \<Rightarrow> string \<Rightarrow> config
     \<Rightarrow> (error + 'r) \<times> config" where
  "convert_onnxml e x model backend test_input device extra_config =
     (case model of
        None \<Rightarrow> (Inl AssertionError, extra_config)
      | Some m \<Rightarrow>
          if \<not> torch_installed e then (Inl AssertionError, extra_config)
          else
            let initial_types =
                  (case ONNX_INITIAL_TYPES extra_config of None \<Rightarrow> None | Some it \<Rightarrow> it)
            in (case generate_test_input e backend test_input initial_types extra_config of
                 (Inl err, c1) \<Rightarrow> (Inl err, c1)
               | (Inr test_input1, c1) \<Rightarrow>
                   (case set_n_features test_input1 c1 of
                      (Inl err, c2) \<Rightarrow> (Inl err, c2)
                    | (Inr u, c2) \<Rightarrow>
                        let initializers =
                              (case graph_initializer m of None \<Rightarrow> [] | Some ins \<Rightarrow> dict_of ins);
                            c3 = c2\<lparr>ONNX_INITIALIZERS := Some initializers\<rparr>
                        in (case parse_onnx_api_model x m of
                              Inl err \<Rightarrow> (Inl err, c3)
                            | Inr topology \<Rightarrow> topology_converter x topology backend device c3))))"

text \<open>\<open>_convert_sparkml\<close>; \<open>model.copy()\<close> is the identity on a value.\<close>

definition convert_sparkml ::
  "env \<Rightarrow> ('t, 'r) ext \<Rightarrow> pymodel option \<Rightarrow> string \<Rightarrow> sample \<Rightarrow> string \<Rightarrow> config
     \<Rightarrow> (error + 'r) \<times> config" where
  "convert_sparkml e x model backend test_input device extra_config =
     (case model of
        None \<Rightarrow> (Inl AssertionError, extra_config)
      | Some m \<Rightarrow>
          if \<not> torch_installed e then (Inl AssertionError, extra_config)
          else (case parse_sparkml_api_model x m extra_config of
                  (Inl err, c) \<Rightarrow> (Inl err, c)
                | (Inr topology, c) \<Rightarrow> topology_converter x topology backend device c))"

text \<open>
  \<open>convert\<close>, in the blocks its comments name. "Add test input as extra configuration
  for conversion" (lines 264 to 269): \<open>and\<close> and \<open>or\<close> evaluate left to right, so
  \<open>len\<close> is only asked of a value that is neither \<open>None\<close> nor a Spark frame, and only
  when the key is not set yet.
\<close>

definition add_test_input :: "env \<Rightarrow> sample \<Rightarrow> config \<Rightarrow> (error + unit) \<times> config" where
  "add_test_input e test_input extra_config =
     (if test_input \<noteq> PyNone \<and> TEST_INPUT extra_config = None then
        if is_spark_dataframe e test_input
        then (Inr (), extra_config\<lparr>TEST_INPUT := Some test_input\<rparr>)
        else (case py_len test_input of
                None \<Rightarrow> (Inl TypeError, extra_config)
              | Some n \<Rightarrow>
                  if 0 < n then (Inr (), extra_config\<lparr>TEST_INPUT := Some test_input\<rparr>)
                  else (Inr (), extra_config))
      else (Inr (), extra_config))"

text \<open>The defaults of \<open>CONTAINER\<close> and \<open>N_THREADS\<close> (lines 271 to 275).\<close>

definition set_defaults :: "env \<Rightarrow> config \<Rightarrow> config" where
  "set_defaults e extra_config =
     (let c1 = (if CONTAINER extra_config = None
                then extra_config\<lparr>CONTAINER := Some True\<rparr> else extra_config)
      in if N_THREADS c1 = None then c1\<lparr>N_THREADS := Some (cpu_count e)\<rparr> else c1)"

text \<open>
  "Fix the test_input type" (lines 278 to 339), branch by branch. The tuple branch:
  both assertions come before the first assignment.
\<close>

definition fix_tuple :: "sample list \<Rightarrow> config \<Rightarrow> (error + unit) \<times> config" where
  "fix_tuple inputs extra_config =
     (if \<not> list_all is_ndarray inputs then (Inl AssertionError, extra_config)
      else if \<not> list_all (\<lambda>input. length (shape_of input) = 2) inputs
        then (Inl AssertionError, extra_config)
      else (Inr (), extra_config
              \<lparr>N_FEATURES := Some (int (sum_list (map (\<lambda>input. shape_of input ! 1) inputs))),
               N_INPUTS := Some (length inputs)\<rparr>))"

text \<open>
  The pandas branch. \<open>tuple(splits) if len(splits) > 1 else splits[0]\<close> reads
  \<open>splits[0]\<close> of an empty list when the frame has no column.
\<close>

definition fix_pandas :: "env \<Rightarrow> frame \<Rightarrow> config \<Rightarrow> (error + unit) \<times> config" where
  "fix_pandas e df extra_config =
     (let n_inputs = length (columns df);
          c1 = extra_config\<lparr>N_INPUTS := Some n_inputs\<rparr>;
          c2 = c1\<lparr>N_FEATURES := Some (int n_inputs)\<rparr>;
          input_names = map cname (columns df);
          splits = map (\<lambda>idx. frame_getitem df (input_names ! idx)) [0..<n_inputs];
          splits = map (\<lambda>d. reshape_col (to_numpy e (nrows df) d)) splits
      in if 1 < length splits
         then (Inr (), c2\<lparr>TEST_INPUT := Some (PyTuple (map NdArray splits)),
                           INPUT_NAMES := Some input_names\<rparr>)
         else (case splits of
                 [] \<Rightarrow> (Inl IndexError, c2)
               | a # rest \<Rightarrow> (Inr (), c2\<lparr>TEST_INPUT := Some (NdArray a),
                                            INPUT_NAMES := Some input_names\<rparr>)))"

text \<open>
  The Spark branch. What the first row's value offers: \<open>data_col.array.shape[0]\<close> exists
  on a dense vector only; \<open>data_col.size\<close> on a sparse vector and, through the array it
  wraps, on a dense one; \<open>len(data_col)\<close> on vectors and lists.
\<close>

fun cell_array_shape0 :: "cell \<Rightarrow> nat option" where
  "cell_array_shape0 (DenseVec xs) = Some (length xs)"
| "cell_array_shape0 _ = None"

fun cell_size :: "cell \<Rightarrow> nat option" where
  "cell_size (SparseVec n xs) = Some n"
| "cell_size (DenseVec xs) = Some (length xs)"
| "cell_size _ = None"

fun cell_len :: "cell \<Rightarrow> nat option" where
  "cell_len (DenseVec xs) = Some (length xs)"
| "cell_len (SparseVec n xs) = Some n"
| "cell_len (ArrayVal xs) = Some (length xs)"
| "cell_len _ = None"

text \<open>The \<open>if\<close>/\<open>elif\<close> chain of the loop body: the numpy type and the width of one field.\<close>

definition field_layout :: "spark_type \<Rightarrow> cell \<Rightarrow> error + (dtype \<times> nat)" where
  "field_layout spark_dtype data_col =
     (if spark_dtype \<in> set [DenseVector, VectorUDT] then
        (case cell_array_shape0 data_col of
           None \<Rightarrow> Inl AttributeError | Some w \<Rightarrow> Inr (float64, w))
      else if spark_dtype = SparseVector then
        (case cell_size data_col of None \<Rightarrow> Inl AttributeError | Some w \<Rightarrow> Inr (float64, w))
      else if spark_dtype = ArrayType then
        (case cell_len data_col of None \<Rightarrow> Inl TypeError | Some w \<Rightarrow> Inr (float64, w))
      else if spark_dtype = IntegerType then Inr (int32, 1)
      else if spark_dtype = FloatType then Inr (float32, 1)
      else if spark_dtype = DoubleType then Inr (float64, 1)
      else if spark_dtype = LongType then Inr (int64, 1)
      else Inl ValueError)"

text \<open>The loop over \<open>df.schema.fields\<close>; it stops at the first field that raises.\<close>

fun spark_splits ::
  "nat \<Rightarrow> (string \<rightharpoonup> cell) \<Rightarrow> (string \<times> spark_type) list \<Rightarrow> error + ndarray list" where
  "spark_splits count row_dict [] = Inr []"
| "spark_splits count row_dict ((name, spark_dtype) # fs) =
     (case row_dict name of
        None \<Rightarrow> Inl KeyError
      | Some data_col \<Rightarrow>
          (case field_layout spark_dtype data_col of
             Inl err \<Rightarrow> Inl err
           | Inr (np_dtype, width) \<Rightarrow>
               (case spark_splits count row_dict fs of
                  Inl err \<Rightarrow> Inl err
                | Inr splits \<Rightarrow> Inr (np_zeros count width np_dtype # splits))))"

text \<open>
  \<open>df.take(1)[0]\<close> raises on a frame without rows; \<open>asDict()\<close> pairs the field names with
  the row's values, a later field of the same name replacing an earlier one.
\<close>

definition fix_spark :: "sframe \<Rightarrow> config \<Rightarrow> (error + unit) \<times> config" where
  "fix_spark df extra_config =
     (let input_names = map fst (sfields df);
          c1 = extra_config\<lparr>N_INPUTS := Some (length input_names)\<rparr>;
          c2 = c1\<lparr>N_FEATURES := Some (int (length input_names))\<rparr>;
          count = length (srows df)
      in case srows df of
           [] \<Rightarrow> (Inl IndexError, c2)
         | row # others \<Rightarrow>
             (let row_dict = map_of (rev (zip input_names row))
              in case spark_splits count row_dict (sfields df) of
                   Inl err \<Rightarrow> (Inl err, c2)
                 | Inr splits \<Rightarrow>
                     if 1 < length splits
                     then (Inr (), c2\<lparr>TEST_INPUT := Some (PyTuple (map NdArray splits)),
                                       INPUT_NAMES := Some input_names\<rparr>)
                     else (case splits of
                             [] \<Rightarrow> (Inl IndexError, c2)
                           | a # rest \<Rightarrow> (Inr (), c2\<lparr>TEST_INPUT := Some (NdArray a),
                                                        INPUT_NAMES := Some input_names\<rparr>))))"

text \<open>
  The whole block: it runs when the key is set, and then the local \<open>test_input\<close> becomes
  the value of the key (line 339). The result is the local \<open>test_input\<close> after the block.
\<close>

definition fix_test_input :: "env \<Rightarrow> sample \<Rightarrow> config \<Rightarrow> (error + sample) \<times> config" where
  "fix_test_input e test_input extra_config =
     (case TEST_INPUT extra_config of
        None \<Rightarrow> (Inr test_input, extra_config)
      | Some ti \<Rightarrow>
          (case (case ti of
                   PyList xs \<Rightarrow>
                     (case np_array e xs of
                        Inl err \<Rightarrow> (Inl err, extra_config)
                      | Inr a \<Rightarrow> (Inr (), extra_config\<lparr>TEST_INPUT := Some (NdArray a)\<rparr>))
                 | PyTuple inputs \<Rightarrow> fix_tuple inputs extra_config
                 | PandasFrame df \<Rightarrow>
                     if pandas_installed e \<and> is_pandas_dataframe e ti
                     then fix_pandas e df extra_config
                     else (Inr (), extra_config)
                 | SparkFrame df \<Rightarrow>
                     if sparkml_installed e \<and> is_spark_dataframe e ti
                     then fix_spark df extra_config
                     else (Inr (), extra_config)
                 | _ \<Rightarrow> (Inr (), extra_config)) of
             (Inl err, c) \<Rightarrow> (Inl err, c)
           | (Inr u, c) \<Rightarrow>
               (case TEST_INPUT c of
                  None \<Rightarrow> (Inl KeyError, c)
                | Some v \<Rightarrow> (Inr v, c))))"

text \<open>The family dispatch (lines 349 to 361).\<close>

definition dispatch ::
  "env \<Rightarrow> ('t, 'r) ext \<Rightarrow> pymodel option \<Rightarrow> string \<Rightarrow> sample \<Rightarrow> string \<Rightarrow> config
     \<Rightarrow> (error + 'r) \<times> config" where
  "dispatch e x model backend test_input device extra_config =
     (if type_of model \<in> set (xgb_operator_list e)
        then convert_xgboost e x model backend test_input device extra_config
      else if type_of model \<in> set (lgbm_operator_list e)
        then convert_lightgbm e x model backend test_input device extra_config
      else if is_onnx_model model
        then convert_onnxml e x model backend test_input device extra_config
      else if is_sparkml_model e model
        then convert_sparkml e x model backend test_input device extra_config
      else convert_sklearn e x model backend test_input device extra_config)"

text \<open>
  The body of \<open>convert\<close> after the copy of \<open>extra_config\<close>, working on the copy: the
  result of the call and the copy as the call leaves it.
\<close>

definition convert_body ::
  "env \<Rightarrow> ('t, 'r) ext \<Rightarrow> pymodel option \<Rightarrow> string \<Rightarrow> sample \<Rightarrow> string \<Rightarrow> config
     \<Rightarrow> (error + 'r) \<times> config" where
  "convert_body e x model backend test_input device extra_config =
     (case add_test_input e test_input extra_config of
        (Inl err, c1) \<Rightarrow> (Inl err, c1)
      | (Inr u, c1) \<Rightarrow>
          (case fix_test_input e test_input (set_defaults e c1) of
             (Inl err, c2) \<Rightarrow> (Inl err, c2)
           | (Inr test_input1, c2) \<Rightarrow>
               (case supported_backend_check (backends e (lower backend)) of
                  Inl err \<Rightarrow> (Inl err, c2)
                | Inr backend1 \<Rightarrow>
                    (case supported_backend_check_config e model backend1 c2 of
                       Inl err \<Rightarrow> (Inl err, c2)
                     | Inr u \<Rightarrow> dispatch e x model backend1 test_input1 device c2))))"

text \<open>
  \<open>convert\<close> itself, on a store of dictionaries: a reference is an index into the store,
  the argument \<open>extra_config\<close> is a reference (the default \<open>{}\<close> is one dictionary,
  created once, at a reference of its own), and \<open>deepcopy\<close> allocates a new dictionary
  with the same entries. Everything after line 260 works on the new reference.
\<close>

type_synonym store = "config list"

definition deepcopy :: "store \<Rightarrow> nat \<Rightarrow> nat \<times> store" where
  "deepcopy st r = (length st, st @ [st ! r])"

definition convert ::
  "env \<Rightarrow> ('t, 'r) ext \<Rightarrow> store \<Rightarrow> pymodel option \<Rightarrow> string \<Rightarrow> sample \<Rightarrow> string \<Rightarrow> nat
     \<Rightarrow> (error + 'r) \<times> store" where
  "convert e x st model backend test_input device extra_config =
     (if model = None then (Inl AssertionError, st)
      else (case deepcopy st extra_config of
              (r, st1) \<Rightarrow>
                (case convert_body e x model backend test_input device (st1 ! r) of
                   (res, c) \<Rightarrow> (res, st1[r := c]))))"

section \<open>Concrete values used to exercise the functions\<close>

text \<open>
  An environment with every optional package installed, four physical cores, the registry
  of \<open>supported.py\<close> for an installation with torch and onnx, one XGBoost estimator class
  and one LightGBM estimator class. The numpy stand-ins are the simplest ones of the right
  type.
\<close>

definition example_env :: env where
  "example_env =
     \<lparr>torch_installed = True, lightgbm_installed = True, xgboost_installed = True,
      pandas_installed = True, sparkml_installed = True, cpu_count = Some 4,
      backends = map_of [(''torch'', ''torch''), (''pytorch'', ''torch''),
                         (''torch.jit'', ''torch.jit''), (''torchscript'', ''torch.jit''),
                         (''onnx'', ''onnx'')],
      xgb_operator_list = [PyType ''xgboost.sklearn'' ''XGBRegressor'',
                           PyType ''xgboost.sklearn'' ''XGBClassifier''],
      lgbm_operator_list = [PyType ''lightgbm.sklearn'' ''LGBMRegressor''],
      np_array = (\<lambda>xs. Inr \<lparr>shape = [length xs], dtype = float64, elems = []\<rparr>),
      np_random_rand = (\<lambda>rows cols. replicate (rows * cols) (1 / 2)),
      np_cast = (\<lambda>dt v. if dt = int32 \<or> dt = int64 then of_int \<lfloor>v\<rfloor> else v),
      np_common_dtype = (\<lambda>ds. float64)\<rparr>"

text \<open>External collaborators that succeed and hand back the configuration they were given.\<close>

definition example_ext :: "(pymodel, config) ext" where
  "example_ext =
     \<lparr>parse_sklearn_api_model = (\<lambda>m c. (Inr m, c)),
      parse_onnx_api_model = (\<lambda>m. Inr m),
      parse_sparkml_api_model = (\<lambda>m c. (Inr m, c)),
      topology_converter = (\<lambda>t b d c. (Inr c, c))\<rparr>"

definition empty_config :: config where
  "empty_config =
     \<lparr>TEST_INPUT = None, N_FEATURES = None, N_INPUTS = None, INPUT_NAMES = None,
      CONTAINER = None, N_THREADS = None, ONNX_INITIAL_TYPES = None,
      ONNX_INITIALIZERS = None\<rparr>"

definition sklearn_model :: pymodel where
  "sklearn_model =
     \<lparr>mtype = PyType ''sklearn.linear_model'' ''LinearRegression'', features_count = None,
      is_spark_instance = False, graph_initializer = None\<rparr>"

definition xgb_regressor :: pymodel where
  "xgb_regressor =
     \<lparr>mtype = PyType ''xgboost.sklearn'' ''XGBRegressor'', features_count = None,
      is_spark_instance = False, graph_initializer = None\<rparr>"


definition onnx_model :: pymodel where
  "onnx_model =
     \<lparr>mtype = PyType ''onnx.onnx_ml_pb2'' ''ModelProto'', features_count = None,
      is_spark_instance = False, graph_initializer = Some [(''w'', 0), (''b'', 1), (''w'', 2)]\<rparr>"

definition array_2x3 :: ndarray where
  "array_2x3 = \<lparr>shape = [2, 3], dtype = float64, elems = [1, 2, 3, 4, 5, 6]\<rparr>"

definition array_2x4 :: ndarray where
  "array_2x4 = \<lparr>shape = [2, 4], dtype = float32, elems = [1, 2, 3, 4, 5, 6, 7, 8]\<rparr>"

definition array_0x5 :: ndarray where
  "array_0x5 = \<lparr>shape = [0, 5], dtype = float64, elems = []\<rparr>"

definition two_arrays :: "sample list" where
  "two_arrays = [NdArray array_2x3, NdArray array_2x4]"

definition config_two_arrays :: config where
  "config_two_arrays = empty_config\<lparr>TEST_INPUT := Some (PyTuple two_arrays)\<rparr>"

definition config_bad_tuple :: config where
  "config_bad_tuple = empty_config\<lparr>TEST_INPUT := Some (PyTuple [NdArray array_2x3, PyNone])\<rparr>"

definition onnx_types_1x4 :: initial_types where
  "onnx_types_1x4 = [(''input'', TensorType FloatTensorType (Some [Some 1, Some 4]))]"

definition config_onnx_types :: config where
  "config_onnx_types = empty_config\<lparr>ONNX_INITIAL_TYPES := Some (Some onnx_types_1x4)\<rparr>"

definition spark_vector_frame :: sframe where
  "spark_vector_frame = SparkDataFrame [(''features'', VectorUDT)] [[DenseVec [1, 2, 3]]]"

definition config_spark_vector :: config where
  "config_spark_vector = empty_config\<lparr>TEST_INPUT := Some (SparkFrame spark_vector_frame)\<rparr>"









text \<open>\<open>df.take(1)[0].asDict()\<close> of a frame that has a row, as in \<open>fix_spark\<close>.\<close>

definition row_dict :: "sframe \<Rightarrow> string \<rightharpoonup> cell" where
  "row_dict df = map_of (rev (zip (map fst (sfields df)) (hd (srows df))))"

section \<open>Evaluation of \<open>lower\<close> on the names used below\<close>

lemma lower_examples:
  "lower ''TorchScript'' = ''torchscript''" "lower ''TensorFlow'' = ''tensorflow''"
  "lower ''tensorflow'' = ''tensorflow''" "lower ''TORCH'' = ''torch''" "lower ''torch'' = ''torch''"
  by code_simp+

section \<open>Feature count of an XGBoost model\<close>



section \<open>A tuple of arrays as test input\<close>

text \<open>
  C6. When the test input in the configuration is a tuple, the canonicalization block
  accepts it exactly when every element is a numpy array and every element has two
  dimensions. Then \<open>N_FEATURES\<close> is the sum of the column counts of the elements and
  \<open>N_INPUTS\<close> is the length of the tuple, and the tuple itself stays the test input;
  otherwise the call fails with an AssertionError and the configuration is untouched.
\<close>

theorem tuple_input_canonicalization:
  assumes "TEST_INPUT c = Some (PyTuple inputs)"
  shows "((\<forall>i\<in>set inputs. is_ndarray i \<and> length (shape_of i) = 2) \<longrightarrow>
            fix_test_input e ti c =
              (Inr (PyTuple inputs),
               c\<lparr>N_FEATURES := Some (int (\<Sum>i\<leftarrow>inputs. shape_of i ! 1)),
                 N_INPUTS := Some (length inputs)\<rparr>))
       \<and> (\<not> (\<forall>i\<in>set inputs. is_ndarray i \<and> length (shape_of i) = 2) \<longrightarrow>
            fix_test_input e ti c = (Inl AssertionError, c))"
  using assms by (auto simp: fix_test_input_def fix_tuple_def list_all_iff)

theorem tuple_input_canonicalization_witness:
  "TEST_INPUT config_two_arrays = Some (PyTuple two_arrays)
   \<and> fix_test_input example_env PyNone config_two_arrays =
       (Inr (PyTuple two_arrays), config_two_arrays\<lparr>N_FEATURES := Some 7, N_INPUTS := Some 2\<rparr>)
   \<and> fix_test_input example_env PyNone config_bad_tuple = (Inl AssertionError, config_bad_tuple)"
proof -
  have a: "TEST_INPUT config_two_arrays = Some (PyTuple two_arrays)"
    by (simp add: config_two_arrays_def)
  have b: "TEST_INPUT config_bad_tuple = Some (PyTuple [NdArray array_2x3, PyNone])"
    by (simp add: config_bad_tuple_def)
  from tuple_input_canonicalization [OF a, of example_env PyNone]
  have 1: "fix_test_input example_env PyNone config_two_arrays =
       (Inr (PyTuple two_arrays), config_two_arrays\<lparr>N_FEATURES := Some 7, N_INPUTS := Some 2\<rparr>)"
    by (simp add: two_arrays_def array_2x3_def array_2x4_def)
  from tuple_input_canonicalization [OF b, of example_env PyNone]
  have 2: "fix_test_input example_env PyNone config_bad_tuple = (Inl AssertionError, config_bad_tuple)"
    by simp
  from a 1 2 show ?thesis by blast
qed

section \<open>Backend preconditions\<close>

text \<open>
  C5, as amended. \<open>_supported_backend_check_config\<close>, with torch installed: the
  \<open>torch.jit\<close> backend without a test input in the configuration fails with the error
  "requires test inputs"; the \<open>onnx\<close> backend with neither initial types nor a test input
  fails with the error "cannot generate test input data"; an ONNX source model with neither
  fails whatever the backend is, with the error of the backend's own check when the backend
  is \<open>torch.jit\<close> or \<open>onnx\<close> (lines 73 to 78 come first) and with the error "cannot
  extract number of input features" for every other backend. In \<open>convert\<close> the check runs
  on the configuration left by the canonicalization and its failure is the result of the
  call: no converter, parser or compiler is reached.
\<close>

theorem backend_preconditions:
  assumes "torch_installed e"
  shows "(TEST_INPUT c = None \<longrightarrow>
            supported_backend_check_config e model torch_jit_name c =
              Inl (RuntimeError JitRequiresTestInput))
       \<and> (ONNX_INITIAL_TYPES c = None \<and> TEST_INPUT c = None \<longrightarrow>
            supported_backend_check_config e model onnx_name c =
              Inl (RuntimeError OnnxBackendNoInput))
       \<and> (is_onnx_model model \<and> ONNX_INITIAL_TYPES c = None \<and> TEST_INPUT c = None \<longrightarrow>
            supported_backend_check_config e model b c =
              Inl (RuntimeError (if b = torch_jit_name then JitRequiresTestInput
                                 else if b = onnx_name then OnnxBackendNoInput
                                 else OnnxModelNoFeatures)))
       \<and> (add_test_input e ti c0 = (Inr u, c1)
            \<and> fix_test_input e ti (set_defaults e c1) = (Inr ti1, c2)
            \<and> backends e (lower b0) = Some b1
            \<and> supported_backend_check_config e model b1 c2 = Inl err \<longrightarrow>
            convert_body e x model b0 ti d c0 = (Inl err, c2))"
  using assms
  by (auto simp: supported_backend_check_config_def torch_jit_name_def onnx_name_def
      convert_body_def supported_backend_check_def)

theorem backend_preconditions_witness:
  "torch_installed example_env
   \<and> supported_backend_check_config example_env (Some sklearn_model) torch_jit_name empty_config =
       Inl (RuntimeError JitRequiresTestInput)
   \<and> supported_backend_check_config example_env (Some sklearn_model) onnx_name empty_config =
       Inl (RuntimeError OnnxBackendNoInput)
   \<and> supported_backend_check_config example_env (Some onnx_model) ''torch'' empty_config =
       Inl (RuntimeError OnnxModelNoFeatures)
   \<and> convert_body example_env example_ext (Some sklearn_model) ''TorchScript'' PyNone ''cpu''
        empty_config =
       (Inl (RuntimeError JitRequiresTestInput), set_defaults example_env empty_config)"
proof -
  have t: "torch_installed example_env"
    by (simp add: example_env_def)
  have n: "TEST_INPUT empty_config = None" "ONNX_INITIAL_TYPES empty_config = None"
    by (simp_all add: empty_config_def)
  have o: "is_onnx_model (Some onnx_model)"
    by (simp add: is_onnx_model_def type_of_def onnx_model_def)
  have d: "''torch'' \<noteq> torch_jit_name" "''torch'' \<noteq> onnx_name"
    by (simp_all add: torch_jit_name_def onnx_name_def)
  have ad: "add_test_input example_env PyNone empty_config = (Inr (), empty_config)"
    by (simp add: add_test_input_def)
  have fx: "fix_test_input example_env PyNone (set_defaults example_env empty_config) =
      (Inr PyNone, set_defaults example_env empty_config)"
    by (simp add: fix_test_input_def set_defaults_def empty_config_def)
  have reg: "backends example_env (lower ''TorchScript'') = Some torch_jit_name"
    by (simp add: lower_examples example_env_def torch_jit_name_def)
  have n2: "TEST_INPUT (set_defaults example_env empty_config) = None"
    by (simp add: set_defaults_def empty_config_def)
  note w = backend_preconditions [OF t]
  from w [of empty_config "Some sklearn_model"] n
  have 1: "supported_backend_check_config example_env (Some sklearn_model) torch_jit_name
      empty_config = Inl (RuntimeError JitRequiresTestInput)"
    and 2: "supported_backend_check_config example_env (Some sklearn_model) onnx_name
      empty_config = Inl (RuntimeError OnnxBackendNoInput)"
    by blast+
  from w [of empty_config "Some onnx_model" "''torch''"] n o d
  have 3: "supported_backend_check_config example_env (Some onnx_model) ''torch'' empty_config =
       Inl (RuntimeError OnnxModelNoFeatures)"
    by (simp, blast)
  from w [of "set_defaults example_env empty_config" "Some sklearn_model"] n2
  have 4: "supported_backend_check_config example_env (Some sklearn_model) torch_jit_name
      (set_defaults example_env empty_config) = Inl (RuntimeError JitRequiresTestInput)"
    by blast
  from w [of "set_defaults example_env empty_config" "Some sklearn_model" "''torch''" PyNone
      empty_config "()" empty_config PyNone "set_defaults example_env empty_config"
      "''TorchScript''" torch_jit_name "RuntimeError JitRequiresTestInput" example_ext "''cpu''"]
    ad fx reg 4
  have 5: "convert_body example_env example_ext (Some sklearn_model) ''TorchScript'' PyNone ''cpu''
        empty_config =
       (Inl (RuntimeError JitRequiresTestInput), set_defaults example_env empty_config)"
    by blast
  from t 1 2 3 5 show ?thesis by blast
qed

text \<open>
  C5 as stated fails in its third part: for an ONNX source model with neither initial types
  nor a test input, the \<open>onnx\<close> backend and the \<open>torch.jit\<close> backend fail with the
  error of the backend's requirement, not with the error about the number of input
  features.
\<close>

theorem backend_preconditions_counterexample:
  "is_onnx_model (Some onnx_model)
   \<and> ONNX_INITIAL_TYPES empty_config = None \<and> TEST_INPUT empty_config = None
   \<and> supported_backend_check_config example_env (Some onnx_model) onnx_name empty_config =
       Inl (RuntimeError OnnxBackendNoInput)
   \<and> supported_backend_check_config example_env (Some onnx_model) torch_jit_name empty_config =
       Inl (RuntimeError JitRequiresTestInput)
   \<and> supported_backend_check_config example_env (Some onnx_model) onnx_name empty_config \<noteq>
       Inl (RuntimeError OnnxModelNoFeatures)
   \<and> fst (convert example_env example_ext [empty_config] (Some onnx_model) ''onnx'' PyNone
            ''cpu'' 0) = Inl (RuntimeError OnnxBackendNoInput)"
  by (simp add: lower_examples example_env_def convert_def deepcopy_def convert_body_def
      add_test_input_def set_defaults_def empty_config_def fix_test_input_def
      supported_backend_check_def supported_backend_check_config_def torch_jit_name_def
      onnx_name_def is_onnx_model_def type_of_def onnx_model_def lower_def lower_char_def)

section \<open>Unregistered backends\<close>

text \<open>
  C1, as amended. \<open>convert\<close> uses the backend name only through its lowercased form.
  When the model is not \<open>None\<close> and the registration and canonicalization of the test
  input raise nothing, a name whose lowercased form is not in the registry makes the call
  fail with MissingBackend, whatever the model is and before the configuration check and
  the family dispatch; the copy of the configuration holds the canonicalized entries.
\<close>

theorem unregistered_backend_fails:
  "(lower b = lower b' \<longrightarrow>
      convert e x st model b ti d r = convert e x st model b' ti d r)
   \<and> (add_test_input e ti (st ! r) = (Inr u, c1)
        \<and> fix_test_input e ti (set_defaults e c1) = (Inr ti1, c2)
        \<and> backends e (lower b) = None \<longrightarrow>
        convert e x st (Some m) b ti d r = (Inl MissingBackend, st @ [c2]))"
proof (intro conjI impI)
  assume low: "lower b = lower b'"
  have "convert_body e x model b ti d c = convert_body e x model b' ti d c" for c
    unfolding convert_body_def low by (rule refl)
  then show "convert e x st model b ti d r = convert e x st model b' ti d r"
    unfolding convert_def by simp
next
  assume "add_test_input e ti (st ! r) = (Inr u, c1)
        \<and> fix_test_input e ti (set_defaults e c1) = (Inr ti1, c2)
        \<and> backends e (lower b) = None"
  then show "convert e x st (Some m) b ti d r = (Inl MissingBackend, st @ [c2])"
    by (simp add: convert_def convert_body_def deepcopy_def supported_backend_check_def)
qed

theorem unregistered_backend_fails_witness:
  "convert example_env example_ext [empty_config] (Some sklearn_model) ''TORCH'' PyNone ''cpu'' 0 =
     convert example_env example_ext [empty_config] (Some sklearn_model) ''torch'' PyNone ''cpu'' 0
   \<and> convert example_env example_ext [empty_config] (Some sklearn_model) ''TensorFlow'' PyNone
        ''cpu'' 0 =
       (Inl MissingBackend, [empty_config, set_defaults example_env empty_config])"
proof -
  have low: "lower ''TORCH'' = lower ''torch''"
    by (simp add: lower_examples)
  have ad: "add_test_input example_env PyNone ([empty_config] ! 0) = (Inr (), empty_config)"
    by (simp add: add_test_input_def)
  have fx: "fix_test_input example_env PyNone (set_defaults example_env empty_config) =
      (Inr PyNone, set_defaults example_env empty_config)"
    by (simp add: fix_test_input_def set_defaults_def empty_config_def)
  have reg: "backends example_env (lower ''TensorFlow'') = None"
    by (simp add: lower_examples example_env_def)
  from unregistered_backend_fails [of "''TORCH''" "''torch''" example_env example_ext
      "[empty_config]" "Some sklearn_model" PyNone "''cpu''" 0] low
  have 1: "convert example_env example_ext [empty_config] (Some sklearn_model) ''TORCH'' PyNone
      ''cpu'' 0 =
     convert example_env example_ext [empty_config] (Some sklearn_model) ''torch'' PyNone ''cpu'' 0"
    by blast
  from unregistered_backend_fails [of "''TensorFlow''" "''TensorFlow''" example_env example_ext
      "[empty_config]" "Some sklearn_model" PyNone "''cpu''" 0 "()" empty_config PyNone
      "set_defaults example_env empty_config" sklearn_model] ad fx reg
  have 2: "convert example_env example_ext [empty_config] (Some sklearn_model) ''TensorFlow'' PyNone
        ''cpu'' 0 =
       (Inl MissingBackend, [empty_config, set_defaults example_env empty_config])"
    by simp
  from 1 2 show ?thesis by blast
qed

text \<open>
  C1 as stated fails: with the unregistered name \<open>tensorflow\<close>, a tuple test input with
  an element that is not an array fails with AssertionError (line 283 runs before line
  343), and so does a model that is \<open>None\<close> (line 257).
\<close>

theorem unregistered_backend_counterexample:
  "backends example_env (lower ''tensorflow'') = None
   \<and> fst (convert example_env example_ext [empty_config] (Some sklearn_model) ''tensorflow''
            (PyTuple [NdArray array_2x3, PyNone]) ''cpu'' 0) = Inl AssertionError
   \<and> fst (convert example_env example_ext [empty_config] None ''tensorflow'' PyNone ''cpu'' 0) =
       Inl AssertionError"
  by (simp add: lower_examples example_env_def convert_def deepcopy_def convert_body_def
      add_test_input_def is_spark_dataframe_def set_defaults_def empty_config_def
      fix_test_input_def fix_tuple_def)

section \<open>The caller's configuration\<close>

text \<open>
  C8. \<open>convert\<close> leaves every dictionary that existed before the call as it was, whether
  the call returns a model or fails: all its writes go to the copy made by \<open>deepcopy\<close>,
  the only dictionary the external parsers and the compiler are handed. So a second call
  with the same \<open>extra_config\<close> object (in particular the shared default \<open>{}\<close>) gives
  the result it would have given without the first call.
\<close>

theorem convert_keeps_caller_config:
  "take (length st) (snd (convert e x st model b ti d r)) = st
   \<and> (r < length st \<longrightarrow>
        fst (convert e x (snd (convert e x st model b ti d r)) model' b' ti' d' r) =
        fst (convert e x st model' b' ti' d' r))"
  by (auto simp: convert_def deepcopy_def nth_append split: prod.splits)

theorem convert_keeps_caller_config_witness:
  "take 1 (snd (convert example_env example_ext [empty_config] (Some sklearn_model) ''torch''
                  (NdArray array_2x3) ''cpu'' 0)) = [empty_config]
   \<and> fst (convert example_env example_ext
            (snd (convert example_env example_ext [empty_config] (Some sklearn_model) ''torch''
                    (NdArray array_2x3) ''cpu'' 0))
            (Some xgb_regressor) ''onnx'' PyNone ''cpu'' 0) =
       fst (convert example_env example_ext [empty_config] (Some xgb_regressor) ''onnx'' PyNone
              ''cpu'' 0)"
  using convert_keeps_caller_config [of "[empty_config]" example_env example_ext
      "Some sklearn_model" "''torch''" "NdArray array_2x3" "''cpu''" 0 "Some xgb_regressor"
      "''onnx''" PyNone "''cpu''"]
  by simp

section \<open>An empty test input\<close>

lemma set_defaults_TEST_INPUT: "TEST_INPUT (set_defaults e c) = TEST_INPUT c"
  by (simp add: set_defaults_def Let_def)

lemma dispatch_ignores_test_input:
  assumes "type_of model \<notin> set (xgb_operator_list e)" "\<not> is_onnx_model model"
  shows "dispatch e x model b t d c = dispatch e x model b t' d c"
  using assms
  by (simp add: dispatch_def convert_lightgbm_def convert_sparkml_def convert_sklearn_def)

text \<open>
  C9, as amended. A test input of length zero that is not a Spark frame, passed when the
  configuration has no test input yet, is not stored under the key: the canonicalization
  block does nothing, and the backend lookup and the backend precondition check give
  exactly what they give when no test input is passed. When they pass, the family converter
  is called with the same configuration as in the absent case, but it receives the empty
  value itself as \<open>test_input\<close>, not \<open>None\<close>. For a model that is neither an XGBoost nor
  an ONNX model the two calls have the same outcome.
\<close>

theorem empty_test_input_not_registered:
  assumes "py_len ti = Some 0" and "\<not> is_spark_dataframe e ti" and "TEST_INPUT c = None"
  shows "add_test_input e ti c = (Inr (), c)
       \<and> add_test_input e PyNone c = (Inr (), c)
       \<and> fix_test_input e ti (set_defaults e c) = (Inr ti, set_defaults e c)
       \<and> (\<forall>t\<in>{ti, PyNone}.
            convert_body e x model b t d c =
              (case supported_backend_check (backends e (lower b)) of
                 Inl err \<Rightarrow> (Inl err, set_defaults e c)
               | Inr b1 \<Rightarrow>
                   (case supported_backend_check_config e model b1 (set_defaults e c) of
                      Inl err \<Rightarrow> (Inl err, set_defaults e c)
                    | Inr u \<Rightarrow> dispatch e x model b1 t d (set_defaults e c))))
       \<and> (type_of model \<notin> set (xgb_operator_list e) \<and> \<not> is_onnx_model model \<longrightarrow>
            convert_body e x model b ti d c = convert_body e x model b PyNone d c)"
proof -
  have a: "add_test_input e ti c = (Inr (), c)"
    using assms by (simp add: add_test_input_def)
  have a0: "add_test_input e PyNone c = (Inr (), c)"
    by (simp add: add_test_input_def)
  have f: "fix_test_input e t (set_defaults e c) = (Inr t, set_defaults e c)" for t
    using assms(3) by (simp add: fix_test_input_def set_defaults_TEST_INPUT)
  have body: "convert_body e x model b t d c =
              (case supported_backend_check (backends e (lower b)) of
                 Inl err \<Rightarrow> (Inl err, set_defaults e c)
               | Inr b1 \<Rightarrow>
                   (case supported_backend_check_config e model b1 (set_defaults e c) of
                      Inl err \<Rightarrow> (Inl err, set_defaults e c)
                    | Inr u \<Rightarrow> dispatch e x model b1 t d (set_defaults e c)))"
    if "t = ti \<or> t = PyNone" for t
    using that a a0 f by (auto simp: convert_body_def)
  have same: "convert_body e x model b ti d c = convert_body e x model b PyNone d c"
    if "type_of model \<notin> set (xgb_operator_list e)" "\<not> is_onnx_model model"
    using dispatch_ignores_test_input [OF that, of x _ ti d _ PyNone] body [of ti] body [of PyNone]
    by (simp split: sum.splits)
  from a a0 f body same show ?thesis by blast
qed

theorem empty_test_input_not_registered_witness:
  "py_len (PyList []) = Some 0
   \<and> add_test_input example_env (PyList []) empty_config = (Inr (), empty_config)
   \<and> convert_body example_env example_ext (Some sklearn_model) ''torch.jit'' (PyList []) ''cpu''
        empty_config =
       (Inl (RuntimeError JitRequiresTestInput), set_defaults example_env empty_config)
   \<and> convert_body example_env example_ext (Some sklearn_model) ''torch'' (PyList []) ''cpu''
        empty_config =
      convert_body example_env example_ext (Some sklearn_model) ''torch'' PyNone ''cpu''
        empty_config"
proof -
  have l: "py_len (PyList []) = Some 0"
    by simp
  have s: "\<not> is_spark_dataframe example_env (PyList [])"
    by (simp add: is_spark_dataframe_def)
  have n: "TEST_INPUT empty_config = None"
    by (simp add: empty_config_def)
  have m: "type_of (Some sklearn_model) \<notin> set (xgb_operator_list example_env)"
    "\<not> is_onnx_model (Some sklearn_model)"
    by (simp_all add: type_of_def sklearn_model_def example_env_def is_onnx_model_def)
  have reg: "supported_backend_check (backends example_env (lower ''torch.jit'')) =
      Inr torch_jit_name"
    by (simp add: lower_def lower_char_def example_env_def supported_backend_check_def
        torch_jit_name_def)
  have chk: "supported_backend_check_config example_env (Some sklearn_model) torch_jit_name
      (set_defaults example_env empty_config) = Inl (RuntimeError JitRequiresTestInput)"
    by (simp add: supported_backend_check_config_def example_env_def set_defaults_def
        empty_config_def)
  note w = empty_test_input_not_registered [OF l s n, of example_ext "Some sklearn_model"]
  from w [of "''torch.jit''" "''cpu''"] reg chk
  have 1: "convert_body example_env example_ext (Some sklearn_model) ''torch.jit'' (PyList [])
      ''cpu'' empty_config =
       (Inl (RuntimeError JitRequiresTestInput), set_defaults example_env empty_config)"
    by simp
  from w [of "''torch''" "''cpu''"] m
  have 2: "convert_body example_env example_ext (Some sklearn_model) ''torch'' (PyList []) ''cpu''
        empty_config =
      convert_body example_env example_ext (Some sklearn_model) ''torch'' PyNone ''cpu''
        empty_config"
    by blast
  from w [of "''torch''" "''cpu''"]
  have 3: "add_test_input example_env (PyList []) empty_config = (Inr (), empty_config)"
    by blast
  from l 1 2 3 show ?thesis by blast
qed

text \<open>
  C9 as stated fails: for an XGBoost model without \<open>_features_count\<close> the empty array of
  shape (0, 5) is converted with five features, while the call without test input fails.
\<close>

theorem empty_test_input_counterexample:
  "py_len (NdArray array_0x5) = Some 0
   \<and> fst (convert example_env example_ext [empty_config] (Some xgb_regressor) ''torch''
            (NdArray array_0x5) ''cpu'' 0) =
       Inr ((set_defaults example_env empty_config)\<lparr>N_FEATURES := Some 5\<rparr>)
   \<and> fst (convert example_env example_ext [empty_config] (Some xgb_regressor) ''torch'' PyNone
            ''cpu'' 0) =
       Inl (RuntimeError XgbNoTestInput)"
  by (simp add: lower_examples array_0x5_def example_env_def example_ext_def convert_def
      deepcopy_def convert_body_def add_test_input_def is_spark_dataframe_def set_defaults_def
      empty_config_def fix_test_input_def supported_backend_check_def
      supported_backend_check_config_def torch_jit_name_def onnx_name_def is_onnx_model_def
      type_of_def xgb_regressor_def dispatch_def convert_xgboost_def features_count_attr_def
      convert_sklearn_def)

section \<open>Generated test input for ONNX models\<close>

text \<open>
  The path that generates a test input, lines 165 to 188, taken for the \<open>onnx\<close> backend
  only. When the first declared input type has a shape of two dimensions that are integers
  and not negative: a tensor class other than float, double, int32 and int64 fails with a
  RuntimeError; otherwise the test input is the random array of the declared shape cast to
  float32, float64, int32 or int64 respectively, it is stored in the configuration, and
  \<open>N_FEATURES\<close> becomes its number of columns unless the configuration already had the
  key.
\<close>

theorem onnx_backend_generates_test_input:
  assumes "torch_installed e"
    and "ONNX_INITIAL_TYPES c = Some (Some ((nm, tt) # rest))"
    and "tshape tt = Some [Some d0, Some d1]" and "0 \<le> d0" and "0 \<le> d1"
  shows "(tensor_dtype (tclass tt) = None \<longrightarrow>
            convert_onnxml e x (Some m) onnx_name PyNone d c =
              (Inl (RuntimeError TensorTypeNotSupported), c))
       \<and> (tensor_dtype (tclass tt) = Some dt \<longrightarrow>
            (let a = \<lparr>shape = [nat d0, nat d1], dtype = dt,
                      elems = map (np_cast e dt) (np_random_rand e (nat d0) (nat d1))\<rparr>;
                 c1 = c\<lparr>TEST_INPUT := Some (NdArray a)\<rparr>;
                 c2 = (if N_FEATURES c = None then c1\<lparr>N_FEATURES := Some d1\<rparr> else c1);
                 c3 = c2\<lparr>ONNX_INITIALIZERS :=
                          Some (case graph_initializer m of None \<Rightarrow> [] | Some ins \<Rightarrow> dict_of ins)\<rparr>
             in convert_onnxml e x (Some m) onnx_name PyNone d c =
                  (case parse_onnx_api_model x m of
                     Inl err \<Rightarrow> (Inl err, c3)
                   | Inr topology \<Rightarrow> topology_converter x topology onnx_name d c3)))
       \<and> tensor_dtype FloatTensorType = Some float32
       \<and> tensor_dtype DoubleTensorType = Some float64
       \<and> tensor_dtype Int32TensorType = Some int32
       \<and> tensor_dtype Int64TensorType = Some int64
       \<and> tensor_dtype (OtherTensorType s) = None
       \<and> (b \<noteq> onnx_name \<longrightarrow> generate_test_input e b PyNone its c = (Inr PyNone, c))"
proof -
  have 1: "convert_onnxml e x (Some m) onnx_name PyNone d c =
      (Inl (RuntimeError TensorTypeNotSupported), c)"
    if "tensor_dtype (tclass tt) = None"
    using assms that by (simp add: convert_onnxml_def generate_test_input_def)
  have 2: "(let a = \<lparr>shape = [nat d0, nat d1], dtype = dt,
                      elems = map (np_cast e dt) (np_random_rand e (nat d0) (nat d1))\<rparr>;
                 c1 = c\<lparr>TEST_INPUT := Some (NdArray a)\<rparr>;
                 c2 = (if N_FEATURES c = None then c1\<lparr>N_FEATURES := Some d1\<rparr> else c1);
                 c3 = c2\<lparr>ONNX_INITIALIZERS :=
                          Some (case graph_initializer m of None \<Rightarrow> [] | Some ins \<Rightarrow> dict_of ins)\<rparr>
             in convert_onnxml e x (Some m) onnx_name PyNone d c =
                  (case parse_onnx_api_model x m of
                     Inl err \<Rightarrow> (Inl err, c3)
                   | Inr topology \<Rightarrow> topology_converter x topology onnx_name d c3))"
    if "tensor_dtype (tclass tt) = Some dt"
    using assms that
    by (cases "N_FEATURES c")
      (simp_all add: convert_onnxml_def generate_test_input_def set_n_features_def Let_def)
  have 3: "tensor_dtype FloatTensorType = Some float32" "tensor_dtype DoubleTensorType = Some float64"
    "tensor_dtype Int32TensorType = Some int32" "tensor_dtype Int64TensorType = Some int64"
    "tensor_dtype (OtherTensorType s) = None"
    by (simp_all add: tensor_dtype_def)
  have 4: "generate_test_input e b PyNone its c = (Inr PyNone, c)" if "b \<noteq> onnx_name"
    using that by (simp add: generate_test_input_def)
  from 1 2 3 4 show ?thesis by blast
qed

theorem onnx_backend_generates_test_input_witness:
  "convert_onnxml example_env example_ext (Some onnx_model) onnx_name PyNone ''cpu''
     config_onnx_types =
     (let c3 = config_onnx_types
                 \<lparr>TEST_INPUT := Some (NdArray \<lparr>shape = [1, 4], dtype = float32,
                                             elems = [1 / 2, 1 / 2, 1 / 2, 1 / 2]\<rparr>),
                  N_FEATURES := Some 4,
                  ONNX_INITIALIZERS := Some [(''w'', 2), (''b'', 1)]\<rparr>
      in (Inr c3, c3))"
proof -
  have t: "torch_installed example_env"
    by (simp add: example_env_def)
  have i: "ONNX_INITIAL_TYPES config_onnx_types =
      Some (Some ((''input'', TensorType FloatTensorType (Some [Some 1, Some 4])) # []))"
    by (simp add: config_onnx_types_def onnx_types_1x4_def)
  have sh: "tshape (TensorType FloatTensorType (Some [Some 1, Some 4])) = Some [Some 1, Some 4]"
    by simp
  have dt: "tensor_dtype (tclass (TensorType FloatTensorType (Some [Some 1, Some 4]))) = Some float32"
    by (simp add: tensor_dtype_def)
  have nf: "N_FEATURES config_onnx_types = None"
    by (simp add: config_onnx_types_def empty_config_def)
  have r: "np_random_rand example_env (nat 1) (nat 4) = [1 / 2, 1 / 2, 1 / 2, 1 / 2]"
    by (simp add: example_env_def numeral_eq_Suc)
  have cst: "np_cast example_env float32 = (\<lambda>v. v)"
    by (simp add: example_env_def)
  have ini: "graph_initializer onnx_model = Some [(''w'', 0), (''b'', 1), (''w'', 2)]"
    by (simp add: onnx_model_def)
  have dict: "dict_of [(''w'', 0), (''b'', 1), (''w'', 2)] = [(''w'', 2), (''b'', 1)]"
    by (simp add: dict_of_def)
  from onnx_backend_generates_test_input [OF t i sh, where dt = float32 and x = example_ext
      and m = onnx_model and d = "''cpu''"]
    dt nf r cst ini dict
  show ?thesis
    by (simp add: Let_def example_ext_def)
qed

text \<open>
  C4. The claim says that an ONNX model converted without test input gets a generated one,
  of the declared shape and type, from which the feature count is read. The code does so
  for the \<open>onnx\<close> backend only. For the \<open>torch\<close> backend with declared initial types
  \<open>[("input", FloatTensorType([1, 4]))]\<close> the precondition check of lines 80 to 83
  passes (its message asks for input data or the initial types), the comment of lines 156
  and 157 says the test input can be generated from the initial types, yet nothing is
  generated and the call ends in the AttributeError of \<open>None.shape\<close> at line 192.
\<close>

theorem onnx_generation_counterexample:
  "supported_backend_check_config example_env (Some onnx_model) ''torch''
     (set_defaults example_env config_onnx_types) = Inr ()
   \<and> generate_test_input example_env ''torch'' PyNone (Some onnx_types_1x4)
       (set_defaults example_env config_onnx_types) =
       (Inr PyNone, set_defaults example_env config_onnx_types)
   \<and> fst (convert example_env example_ext [config_onnx_types] (Some onnx_model) ''torch'' PyNone
          ''cpu'' 0) = Inl AttributeError"
  by (simp add: lower_examples example_env_def convert_def
      deepcopy_def convert_body_def add_test_input_def set_defaults_def
      empty_config_def fix_test_input_def supported_backend_check_def
      supported_backend_check_config_def torch_jit_name_def onnx_name_def is_onnx_model_def
      type_of_def onnx_model_def dispatch_def config_onnx_types_def convert_onnxml_def
      generate_test_input_def set_n_features_def)

section \<open>Feature count of a Spark frame\<close>

text \<open>
  C3. The claim does not hold on the Spark branch: a frame with the single vector field
  \<open>features\<close> of width three gives one array with three columns, and \<open>N_FEATURES\<close> is set
  to one, the number of fields. The tuple branch (line 287) sums the column counts.
\<close>

theorem spark_vector_feature_count:
  "fix_test_input example_env PyNone config_spark_vector =
     (Inr (NdArray \<lparr>shape = [1, 3], dtype = float64, elems = [0, 0, 0]\<rparr>),
      config_spark_vector
        \<lparr>N_INPUTS := Some 1, N_FEATURES := Some 1,
         TEST_INPUT := Some (NdArray \<lparr>shape = [1, 3], dtype = float64, elems = [0, 0, 0]\<rparr>),
         INPUT_NAMES := Some [''features'']\<rparr>)"
  by (simp add: fix_test_input_def config_spark_vector_def spark_vector_frame_def
      example_env_def is_spark_dataframe_def fix_spark_def field_layout_def np_zeros_def
      numeral_eq_Suc)

section \<open>A pandas frame as test input\<close>






section \<open>A Spark frame as test input\<close>









end
